theory Spec2Isabelle
  imports Main
begin

section \<open>Python values, exceptions and the run-time state\<close>

text \<open>
  The repository is one notebook, \<^verbatim>\<open>train_exp.ipynb\<close>. It defines three functions;
  \<^verbatim>\<open>evaluate\<close> and \<^verbatim>\<open>train_loop\<close> are embedded here as state-passing functions.
  Everything they call belongs to external libraries (torch, diffusers, accelerate, tqdm,
  os): a library call is an event appended to a trace, and its outcome (a value or an
  exception) is a parameter of the model, given by the \<open>lib\<close> component of a \<open>world\<close>.
\<close>

datatype val =
    VNone
  | VBool bool
  | VInt int
  | VStr string
  | VObj nat
  | VFloat int int
  | VTuple "val list"
  | VDict "(string \<times> val) list"

datatype exn =
    NameError string
  | UnboundLocalError string
  | TypeError
  | ValueError
  | ZeroDivisionError
  | LibraryError nat

text \<open>A library call: the callee as the source writes it, and the argument values.\<close>

type_synonym call = "string \<times> val list"

record world =
  globals :: "string \<Rightarrow> val option"
  lib :: "call list \<Rightarrow> call \<Rightarrow> exn + val"
  batches :: "int \<Rightarrow> val list"

record st =
  locals :: "string \<Rightarrow> val option"
  trace :: "call list"

type_synonym 'a py = "st \<Rightarrow> (exn + 'a) \<times> st"

definition ret :: "'a \<Rightarrow> 'a py" where
  "ret v = (\<lambda>s. (Inr v, s))"

definition raise :: "exn \<Rightarrow> 'a py" where
  "raise e = (\<lambda>s. (Inl e, s))"

text \<open>Sequencing: an exception of the first part skips the rest (there is no handler).\<close>

definition pbind :: "'a py \<Rightarrow> ('a \<Rightarrow> 'b py) \<Rightarrow> 'b py" where
  "pbind m f = (\<lambda>s. case m s of (Inl e, s') \<Rightarrow> (Inl e, s') | (Inr v, s') \<Rightarrow> f v s')"

definition pthen :: "'a py \<Rightarrow> 'b py \<Rightarrow> 'b py" where
  "pthen m k = pbind m (\<lambda>_. k)"

definition expr :: "'a py \<Rightarrow> unit py" where
  "expr m = pbind m (\<lambda>_. ret ())"

fun block :: "unit py list \<Rightarrow> unit py" where
  "block [] = ret ()"
| "block (m # ms) = pthen m (block ms)"

fun evals :: "val py list \<Rightarrow> val list py" where
  "evals [] = ret []"
| "evals (e # es) = pbind e (\<lambda>v. pbind (evals es) (\<lambda>vs. ret (v # vs)))"

text \<open>
  Name resolution. A name assigned somewhere in a function is local to it, and reading it
  before the assignment raises \<open>UnboundLocalError\<close>; any other name is looked up in the
  notebook's global namespace and raises \<open>NameError\<close> when it is not bound there.
\<close>

definition lread :: "string \<Rightarrow> val py" where
  "lread x = (\<lambda>s. case locals s x of None \<Rightarrow> (Inl (UnboundLocalError x), s) | Some v \<Rightarrow> (Inr v, s))"

definition lset :: "string \<Rightarrow> val \<Rightarrow> unit py" where
  "lset x v = (\<lambda>s. (Inr (), s\<lparr>locals := (locals s)(x \<mapsto> v)\<rparr>))"

definition assign :: "string \<Rightarrow> val py \<Rightarrow> unit py" where
  "assign x e = pbind e (lset x)"

definition gread :: "world \<Rightarrow> string \<Rightarrow> val py" where
  "gread w x = (case globals w x of None \<Rightarrow> raise (NameError x) | Some v \<Rightarrow> ret v)"

text \<open>A library call appends its event to the trace; the world decides its outcome.\<close>

definition lcall :: "world \<Rightarrow> string \<Rightarrow> val list \<Rightarrow> val py" where
  "lcall w f args = (\<lambda>s. (lib w (trace s) (f, args), s\<lparr>trace := trace s @ [(f, args)]\<rparr>))"

text \<open>
  \<open>gcall\<close>: a call \<^verbatim>\<open>g.f(args)\<close> or \<^verbatim>\<open>g(args)\<close> through the global name \<open>g\<close>;
  \<open>mcall\<close>: a call \<^verbatim>\<open>obj.f(args)\<close> or \<^verbatim>\<open>obj(args)\<close> on the value of an expression.
  Python evaluates the callee first, then the arguments from left to right.
\<close>

definition gcall :: "world \<Rightarrow> string \<Rightarrow> string \<Rightarrow> val py list \<Rightarrow> val py" where
  "gcall w g f es = pbind (gread w g) (\<lambda>_. pbind (evals es) (\<lambda>vs. lcall w f vs))"

definition mcall :: "world \<Rightarrow> string \<Rightarrow> val py \<Rightarrow> val py list \<Rightarrow> val py" where
  "mcall w f obj es = pbind obj (\<lambda>v. pbind (evals es) (\<lambda>vs. lcall w f (v # vs)))"

definition getattr :: "world \<Rightarrow> val py \<Rightarrow> string \<Rightarrow> val py" where
  "getattr w obj a = pbind obj (\<lambda>v. lcall w ''getattr'' [v, VStr a])"

definition subscript :: "world \<Rightarrow> val py \<Rightarrow> val \<Rightarrow> val py" where
  "subscript w obj i = pbind obj (\<lambda>v. lcall w ''[]'' [v, i])"

fun truthy :: "val \<Rightarrow> bool" where
  "truthy VNone = False"
| "truthy (VBool b) = b"
| "truthy (VInt n) = (n \<noteq> 0)"
| "truthy (VStr s) = (s \<noteq> [])"
| "truthy (VObj _) = True"
| "truthy (VFloat m e) = (m \<noteq> 0)"
| "truthy (VTuple vs) = (vs \<noteq> [])"
| "truthy (VDict kvs) = (kvs \<noteq> [])"

definition pif :: "val py \<Rightarrow> unit py \<Rightarrow> unit py \<Rightarrow> unit py" where
  "pif c a b = pbind c (\<lambda>v. if truthy v then a else b)"

definition pnot :: "val py \<Rightarrow> val py" where
  "pnot e = pbind e (\<lambda>v. ret (VBool (\<not> truthy v)))"

definition por :: "val py \<Rightarrow> val py \<Rightarrow> val py" where
  "por a b = pbind a (\<lambda>v. if truthy v then ret v else b)"

fun for_in :: "'a list \<Rightarrow> ('a \<Rightarrow> unit py) \<Rightarrow> unit py" where
  "for_in [] body = ret ()"
| "for_in (x # xs) body = pthen (body x) (for_in xs body)"

text \<open>
  \<^verbatim>\<open>with cm: body\<close>. The context managers of the notebook come from accelerate; leaving
  the block on an exception re-raises it.
\<close>

definition pwith :: "val py \<Rightarrow> unit py \<Rightarrow> unit py" where
  "pwith cm body = pbind cm (\<lambda>_. body)"

subsection \<open>Integers, strings and paths\<close>

definition as_int :: "val \<Rightarrow> int py" where
  "as_int v = (case v of VInt n \<Rightarrow> ret n | VBool b \<Rightarrow> ret (if b then 1 else 0) | _ \<Rightarrow> raise TypeError)"

definition py_mod :: "int \<Rightarrow> int \<Rightarrow> int py" where
  "py_mod a b = (if b = 0 then raise ZeroDivisionError else ret (a mod b))"

definition digit :: "nat \<Rightarrow> char" where
  "digit d = char_of (48 + d)"

fun str_nat :: "nat \<Rightarrow> string" where
  "str_nat n = (if n < 10 then [digit n] else str_nat (n div 10) @ [digit (n mod 10)])"

definition str_int :: "int \<Rightarrow> string" where
  "str_int i = (if i < 0 then CHR ''-'' # str_nat (nat (- i)) else str_nat (nat i))"

text \<open>The format \<^verbatim>\<open>{epoch:04d}\<close>: zero padding to width 4, the sign counted in the width.\<close>

definition zfill :: "nat \<Rightarrow> string \<Rightarrow> string" where
  "zfill n s = replicate (n - length s) CHR ''0'' @ s"

definition fmt_04d :: "int \<Rightarrow> string" where
  "fmt_04d i = (if i < 0 then CHR ''-'' # zfill 3 (str_nat (nat (- i))) else zfill 4 (str_nat (nat i)))"

text \<open>
  \<^verbatim>\<open>os.path.join(a, b)\<close> for a relative second part, as \<^verbatim>\<open>posixpath\<close> defines it; a first
  part that is \<^verbatim>\<open>None\<close> raises \<open>TypeError\<close>.
\<close>

definition path_join :: "string \<Rightarrow> string \<Rightarrow> string" where
  "path_join a b = (if a = [] then b else if last a = CHR ''/'' then a @ b else a @ ''/'' @ b)"

definition os_path_join :: "string option \<Rightarrow> string \<Rightarrow> val py" where
  "os_path_join a b = (case a of None \<Rightarrow> raise TypeError | Some d \<Rightarrow> ret (VStr (path_join d b)))"

section \<open>The configuration record\<close>

text \<open>
  \<^verbatim>\<open>class TrainingConfig\<close>: the attributes of the class body, in the source's order.
  \<open>learning_rate\<close> is the literal \<^verbatim>\<open>1e-4\<close>, kept as the pair mantissa and decimal exponent.
  \<open>output_dir\<close> and \<open>hub_model_id\<close> may be \<^verbatim>\<open>None\<close>: \<^verbatim>\<open>train_loop\<close> tests both.
\<close>

record TrainingConfig =
  image_size :: int
  train_batch_size :: int
  eval_batch_size :: int
  num_epochs :: int
  gradient_accumulation_steps :: int
  learning_rate :: "int \<times> int"
  lr_warmup_steps :: int
  save_image_epochs :: int
  save_model_epochs :: int
  mixed_precision :: string
  output_dir :: "string option"
  push_to_hub :: bool
  hub_model_id :: "string option"
  hub_private_repo :: "bool option"
  overwrite_output_dir :: bool
  seed :: int

text \<open>A float literal \<open>m\<close>e\<open>k\<close> is kept as \<open>VFloat m k\<close>; no arithmetic is done on it.\<close>

definition opt_str :: "string option \<Rightarrow> val" where
  "opt_str x = (case x of None \<Rightarrow> VNone | Some s \<Rightarrow> VStr s)"

section \<open>evaluate\<close>

text \<open>
  \<^verbatim>\<open>def evaluate(config, epoch, pipeline)\<close>. Its first two statements sample a batch of
  images from the pipeline, with a generator of its own, made on the CPU and seeded with
  \<^verbatim>\<open>config.seed\<close>, and arrange them in a 4 by 4 grid.
\<close>

definition sample_images :: "world \<Rightarrow> TrainingConfig \<Rightarrow> unit py" where
  "sample_images w config = block [
     assign ''images''
       (getattr w
         (mcall w ''pipeline'' (lread ''pipeline'')
           [ret (VInt (eval_batch_size config)),
            mcall w ''manual_seed'' (gcall w ''torch'' ''torch.Generator'' [ret (VStr ''cpu'')])
              [ret (VInt (seed config))]])
         ''images''),
     assign ''image_grid''
       (gcall w ''make_image_grid'' ''make_image_grid'' [lread ''images'', ret (VInt 4), ret (VInt 4)])
   ]"

text \<open>
  Its last three statements save the grid as
  \<^verbatim>\<open><output_dir>/test_images/<epoch:04d>.png\<close>, after creating the directory.
\<close>

definition save_grid :: "world \<Rightarrow> TrainingConfig \<Rightarrow> unit py" where
  "save_grid w config = block [
     assign ''test_dir''
       (pbind (gread w ''os'') (\<lambda>_. os_path_join (output_dir config) ''test_images'')),
     expr (gcall w ''os'' ''os.makedirs'' [lread ''test_dir'', ret (VBool True)]),
     expr (mcall w ''image_grid.save'' (lread ''image_grid'')
       [pbind (lread ''test_dir'') (\<lambda>d. pbind (lread ''epoch'') (\<lambda>e. pbind (as_int e) (\<lambda>n.
          case d of VStr t \<Rightarrow> ret (VStr (t @ ''/'' @ fmt_04d n @ ''.png'')) | _ \<Rightarrow> raise TypeError)))])
   ]"

definition evaluate :: "world \<Rightarrow> TrainingConfig \<Rightarrow> int \<Rightarrow> val \<Rightarrow> unit py" where
  "evaluate w config epoch pipeline = block [
     lset ''epoch'' (VInt epoch),
     lset ''pipeline'' pipeline,
     sample_images w config,
     save_grid w config
   ]"

section \<open>train_loop\<close>

definition enumerate_py :: "'a list \<Rightarrow> (int \<times> 'a) list" where
  "enumerate_py xs = zip (map int [0..<length xs]) xs"

text \<open>Tuple assignment \<^verbatim>\<open>a, b, c, d = e\<close>.\<close>

definition unpack :: "string list \<Rightarrow> val \<Rightarrow> unit py" where
  "unpack xs v = (case v of
       VTuple vs \<Rightarrow> if length vs = length xs then block (map (\<lambda>(x, u). lset x u) (zip xs vs))
                    else raise ValueError
     | _ \<Rightarrow> raise TypeError)"

text \<open>
  The body of the loop \<^verbatim>\<open>for step, batch in enumerate(train_dataloader)\<close>: the four
  statements indented under it in the source, and no other.
\<close>

definition batch_body :: "world \<Rightarrow> int \<times> val \<Rightarrow> unit py" where
  "batch_body w sb = block [
     lset ''step'' (VInt (fst sb)),
     lset ''batch'' (snd sb),
     assign ''clean_images'' (subscript w (lread ''batch'') (VStr ''images'')),
     assign ''noise''
       (gcall w ''torch'' ''torch.randn''
         [getattr w (lread ''clean_images'') ''shape'', getattr w (lread ''clean_images'') ''device'']),
     assign ''bs'' (subscript w (getattr w (lread ''clean_images'') ''shape'') (VInt 0)),
     assign ''timesteps''
       (gcall w ''torch'' ''torch.randint''
         [ret (VInt 0),
          getattr w (lread ''noise_scheduler'') ''num_timesteps'',
          pbind (lread ''bs'') (\<lambda>b. ret (VTuple [b])),
          getattr w (lread ''clean_images'') ''device'',
          getattr w (gread w ''torch'') ''int64''])
   ]"

text \<open>The block under \<^verbatim>\<open>with accelerator.accumulate(model):\<close>.\<close>

definition accumulate_block :: "world \<Rightarrow> unit py" where
  "accumulate_block w = block [
     assign ''noise_pred''
       (subscript w
         (mcall w ''model'' (lread ''model'')
           [gread w ''noisy_images'', lread ''timesteps'', ret (VBool False)])
         (VInt 0)),
     assign ''loss'' (gcall w ''F'' ''F.mse_loss'' [lread ''noise_pred'', lread ''noise'']),
     expr (mcall w ''accelerator.backward'' (lread ''accelerator'') [lread ''loss'']),
     pif (getattr w (lread ''accelerator'') ''sync_gradients'')
       (expr (mcall w ''accelerator.clip_grad_norm_'' (lread ''accelerator'')
          [mcall w ''model.parameters'' (lread ''model'') [], ret (VFloat 10 (- 1))]))
       (ret ()),
     expr (mcall w ''optimizer.step'' (lread ''optimizer'') []),
     expr (mcall w ''lr_scheduler.step'' (lread ''lr_scheduler'') []),
     expr (mcall w ''optimizer.zero_grad'' (lread ''optimizer'') [])
   ]"

text \<open>The statement \<^verbatim>\<open>with accelerator.accumulate(model): ...\<close> as a whole.\<close>

definition accumulate_stmt :: "world \<Rightarrow> unit py" where
  "accumulate_stmt w =
     pwith (mcall w ''accelerator.accumulate'' (lread ''accelerator'') [lread ''model''])
       (accumulate_block w)"

text \<open>
  The body of \<^verbatim>\<open>for epoch in range(config.num_epochs)\<close>. In the source the call of
  \<^verbatim>\<open>add_noise\<close>, the \<^verbatim>\<open>with\<close> block and the logging stand at the indentation of the
  batch loop's header, so they follow that loop instead of belonging to its body.
\<close>

definition epoch_body :: "world \<Rightarrow> TrainingConfig \<Rightarrow> int \<Rightarrow> unit py" where
  "epoch_body w config epoch = block [
     lset ''epoch'' (VInt epoch),
     assign ''progress_bar''
       (gcall w ''tqdm'' ''tqdm''
         [mcall w ''len'' (lread ''train_dataloader'') [],
          pnot (getattr w (lread ''accelerator'') ''is_local_main_process'')]),
     expr (mcall w ''progress_bar.set_description'' (lread ''progress_bar'')
       [pbind (lread ''epoch'') (\<lambda>e. pbind (as_int e) (\<lambda>n. ret (VStr (''Epoch '' @ str_int n))))]),
     pbind (lread ''train_dataloader'') (\<lambda>_. for_in (enumerate_py (batches w epoch)) (batch_body w)),
     assign ''noise_images''
       (mcall w ''noise_scheduler.add_noise'' (lread ''noise_scheduler'')
         [lread ''clean_images'', lread ''noise'', lread ''timesteps'']),
     accumulate_stmt w,
     expr (mcall w ''progress_bar.update'' (lread ''progress_bar'') [ret (VInt 1)]),
     assign ''logs''
       (pbind (mcall w ''item'' (mcall w ''loss.detach'' (lread ''loss'') []) []) (\<lambda>l.
        pbind (subscript w (mcall w ''lr_scheduler.get_last_lr'' (lread ''lr_scheduler'') []) (VInt 0)) (\<lambda>r.
        pbind (lread ''global_step'') (\<lambda>g.
        ret (VDict [(''loss'', l), (''lr'', r), (''step'', g)]))))),
     expr (mcall w ''progress_bar.set_postfix'' (lread ''progress_bar'') [lread ''logs'']),
     expr (mcall w ''accelerator.log'' (lread ''accelerator'') [lread ''logs'', lread ''global_step'']),
     assign ''global_step''
       (pbind (lread ''global_step'') (\<lambda>g. pbind (as_int g) (\<lambda>n. ret (VInt (n + 1)))))
   ]"

text \<open>
  The block that starts at \<^verbatim>\<open>if accelerator.is_main_process:\<close> below the comment
  "After each epoch ...". In the source it stands at the indentation of the epoch loop's
  header, so it follows that loop.
\<close>

definition save_block :: "world \<Rightarrow> TrainingConfig \<Rightarrow> unit py" where
  "save_block w config =
     pif (getattr w (lread ''accelerator'') ''is_main_process'')
       (block [
          assign ''pipeline''
            (gcall w ''DDPMPipeline'' ''DDPMPipeline''
              [mcall w ''accelerator.unwrap_model'' (lread ''accelerator'') [lread ''model''],
               lread ''noise_scheduler'']),
          pif (por
                (pbind (lread ''epoch'') (\<lambda>e. pbind (as_int e) (\<lambda>n.
                   pbind (py_mod (n + 1) (save_model_epochs config)) (\<lambda>r. ret (VBool (r = 0))))))
                (pbind (lread ''epoch'') (\<lambda>e. pbind (as_int e) (\<lambda>n.
                   ret (VBool (n = num_epochs config - 1))))))
            (pif (ret (VBool (push_to_hub config)))
               (expr (gcall w ''upload_folder'' ''upload_folder''
                  [lread ''repo_id'',
                   ret (opt_str (output_dir config)),
                   pbind (lread ''epoch'') (\<lambda>e. pbind (as_int e) (\<lambda>n. ret (VStr (''Epoch '' @ str_int n)))),
                   ret (VTuple [VStr ''step_*'', VStr ''epoch_*''])]))
               (expr (mcall w ''pipeline.save_pretrained'' (lread ''pipeline'')
                  [ret (opt_str (output_dir config))])))
            (ret ())
        ])
       (ret ())"

definition train_loop ::
  "world \<Rightarrow> TrainingConfig \<Rightarrow> val \<Rightarrow> val \<Rightarrow> val \<Rightarrow> val \<Rightarrow> val \<Rightarrow> unit py" where
  "train_loop w config model noise_scheduler optimizer train_dataloader lr_scheduler = block [
     lset ''model'' model,
     lset ''noise_scheduler'' noise_scheduler,
     lset ''optimizer'' optimizer,
     lset ''train_dataloader'' train_dataloader,
     lset ''lr_scheduler'' lr_scheduler,
     assign ''accelerator''
       (gcall w ''Accelerator'' ''Accelerator''
         [ret (VStr (mixed_precision config)),
          ret (VInt (gradient_accumulation_steps config)),
          ret (VStr ''tensorboard''),
          pbind (gread w ''os'') (\<lambda>_. os_path_join (output_dir config) ''logs'')]),
     pif (getattr w (lread ''accelerator'') ''is_main_process'')
       (pif (ret (VBool (output_dir config \<noteq> None)))
          (block [
             expr (gcall w ''os'' ''os.makedirs'' [ret (opt_str (output_dir config)), ret (VBool True)]),
             pif (ret (VBool (push_to_hub config)))
               (assign ''repo_id''
                  (getattr w
                    (gcall w ''create_repo'' ''create_repo''
                      [por (ret (opt_str (hub_model_id config)))
                           (getattr w (gcall w ''Path'' ''Path'' [ret (opt_str (output_dir config))]) ''name''),
                       ret (VBool True)])
                    ''repo_id''))
               (ret ()),
             expr (mcall w ''accelerator.init_trackers'' (lread ''accelerator'') [ret (VStr ''train_example'')])
           ])
          (ret ()))
       (ret ()),
     pbind (mcall w ''accelerator.prepare'' (lread ''accelerator'')
              [lread ''model'', lread ''optimizer'', lread ''train_dataloader'', lread ''lr_scheduler''])
       (unpack [''model'', ''optimizer'', ''train_dataloader'', ''lr_scheduler'']),
     lset ''global_step'' (VInt 0),
     for_in [0 .. num_epochs config - 1] (epoch_body w config),
     save_block w config
   ]"


section \<open>Traces of library calls\<close>

text \<open>
  \<open>traces R m\<close>: whatever the state, running \<open>m\<close> only appends events to the trace, and
  the old trace \<open>h\<close>, the appended events and the exception raised (if any) are related by
  \<open>R\<close>. \<open>fails m\<close>: \<open>m\<close> never returns normally.
\<close>

definition err :: "exn + 'a \<Rightarrow> exn option" where
  "err r = (case r of Inl e \<Rightarrow> Some e | Inr _ \<Rightarrow> None)"

definition traces :: "(call list \<Rightarrow> call list \<Rightarrow> exn option \<Rightarrow> bool) \<Rightarrow> 'a py \<Rightarrow> bool" where
  "traces R m = (\<forall>s. \<exists>new. trace (snd (m s)) = trace s @ new \<and> R (trace s) new (err (fst (m s))))"

definition seq_closed :: "(call list \<Rightarrow> call list \<Rightarrow> exn option \<Rightarrow> bool) \<Rightarrow> bool" where
  "seq_closed R = ((\<forall>h r. R h [] r) \<and> (\<forall>h a b r. R h a None \<and> R (h @ a) b r \<longrightarrow> R h (a @ b) r))"

definition fails :: "'a py \<Rightarrow> bool" where
  "fails m = (\<forall>s. isl (fst (m s)))"


text \<open>\<open>quiet F\<close>: no appended event is a call of a callee listed in \<open>F\<close>.\<close>

definition quiet :: "string list \<Rightarrow> call list \<Rightarrow> call list \<Rightarrow> exn option \<Rightarrow> bool" where
  "quiet F h new r = list_all (\<lambda>c. fst c \<notin> set F) new"


text \<open>
  The library calls of the gradient-update block of \<^verbatim>\<open>train_loop\<close> and of the logging
  statements that follow it.
\<close>

definition step_calls :: "string list" where
  "step_calls = [''model'', ''F.mse_loss'', ''accelerator.backward'', ''accelerator.clip_grad_norm_'',
     ''model.parameters'', ''optimizer.step'', ''lr_scheduler.step'', ''optimizer.zero_grad'',
     ''progress_bar.update'', ''loss.detach'', ''item'', ''lr_scheduler.get_last_lr'',
     ''progress_bar.set_postfix'', ''accelerator.log'']"


section \<open>The notebook's global namespace and an example world\<close>

text \<open>
  The names that the notebook's cells bind at top level (imports, assignments, loop
  variables, \<^verbatim>\<open>def\<close> and \<^verbatim>\<open>class\<close>), in the order of the cells. In the example world
  every library call succeeds and returns a new object; \<^verbatim>\<open>accelerator.prepare\<close> returns its
  arguments, the process is the main process, and the data loader yields two batches.
  \<open>default_config\<close> has the values of the class body; the right-hand side of
  \<^verbatim>\<open>hub_model_id\<close> is not an expression and is left as \<open>None\<close>.
\<close>

definition notebook_global_names :: "string list" where
  "notebook_global_names =
     [''dataclasses'', ''TrainingConfig'', ''config'', ''load_dataset'', ''dataset'', ''plt'',
      ''fig'', ''axs'', ''i'', ''image'', ''transforms'', ''preprocess'', ''transform'', ''torch'',
      ''train_dataloader'', ''UNet2DModel'', ''model'', ''sample_image'', ''Image'',
      ''DDPMScheduler'', ''noise_scheduler'', ''noise'', ''timesteps'', ''noisy_image'', ''F'',
      ''noise_pred'', ''loss'', ''get_cosine_schedule_with_warmup'', ''AdamW'', ''optimizer'',
      ''lr_scheduler'', ''DDPMPipeline'', ''make_image_grid'', ''os'', ''evaluate'',
      ''Accelerator'', ''tqdm'', ''Path'', ''train_loop'', ''notebook_launcher'', ''args'',
      ''glob'', ''sampel_images'']"

definition notebook_globals :: "string \<Rightarrow> val option" where
  "notebook_globals = map_of (map (\<lambda>x. (x, VObj 0)) notebook_global_names)"

definition example_lib :: "call list \<Rightarrow> call \<Rightarrow> exn + val" where
  "example_lib h c =
     (if fst c = ''accelerator.prepare'' then Inr (VTuple (tl (snd c)))
      else if fst c = ''getattr'' \<and> snd c ! 1 = VStr ''is_main_process'' then Inr (VBool True)
      else Inr (VObj (Suc (length h))))"

definition example_world :: world where
  "example_world = \<lparr>globals = notebook_globals, lib = example_lib, batches = (\<lambda>_. [VObj 100, VObj 101])\<rparr>"

definition default_config :: TrainingConfig where
  "default_config = \<lparr>image_size = 128, train_batch_size = 16, eval_batch_size = 16, num_epochs = 50,
     gradient_accumulation_steps = 1, learning_rate = (1, - 4), lr_warmup_steps = 500,
     save_image_epochs = 10, save_model_epochs = 30, mixed_precision = ''fp16'',
     output_dir = Some ''ddpm-butterflies-128'', push_to_hub = False, hub_model_id = None,
     hub_private_repo = None, overwrite_output_dir = True, seed = 0\<rparr>"


section \<open>The source text of the notebook\<close>

text \<open>
  The sixteen code cells of \<^verbatim>\<open>train_exp.ipynb\<close>, in order, each as the list of its lines,
  verbatim (a quote that ends a line is appended as \<open>CHR 0x27\<close>). Markdown cells are
  not code and are left out.
\<close>

definition cell_install :: "string list" where
  \<open>cell_install = [
     ''!pip install diffusers[training]''
   ]\<close>

definition cell_config :: "string list" where
  \<open>cell_config = [
     ''from dataclasses import dataclasses'',
     '''',
     ''@dataclasses'',
     ''class TrainingConfig: '',
     ''    image_size = 128 # the genrated image resolution'',
     ''    train_batch_size = 16'',
     ''    eval_batch_size = 16 # how many images to sample during evaluation'',
     ''    num_epochs = 50'',
     ''    gradient_accumulation_steps = 1'',
     ''    learning_rate = 1e-4'',
     ''    lr_warmup_steps = 500'',
     ''    save_image_epochs = 10'',
     ''    save_model_epochs = 30'',
     ''    mixed_precision = 'fp16'   # 'no' for float32, 'fp16' for automatic mixed precision'',
     ''    output_dir = 'ddpm-butterflies-128'' @ [CHR 0x27],
     '''',
     ''    push_to_hub = False   '',
     ''    hub_model_id = '<your-username>'/<my-awesome-model>'',
     ''    hub_private_repo = None'',
     ''    overwrite_output_dir = True  # overwrite the old model when re-running the notebook'',
     ''    seed = 0'',
     '''',
     ''config = TrainingConfig()''
   ]\<close>

definition cell_load_dataset :: "string list" where
  \<open>cell_load_dataset = [
     ''from dataset import load_dataset'',
     ''config.dataset_name = "huggan/smithsonian_butterflies_subset"'',
     ''dataset = load_dataset(config.dataset_name,split='train')'',
     ''''
   ]\<close>

definition cell_show_images :: "string list" where
  \<open>cell_show_images = [
     ''import matplotlib.pyplot as plt'',
     '''',
     ''fig, axs = plt.subplots(1, 4, figsize=(16, 4))'',
     ''for i, image in enumerate(dataset[:4]["image"]):'',
     ''    axs[i].imshow(image)'',
     ''    axs[i].set_axis_off()'',
     ''fig.show()''
   ]\<close>

definition cell_preprocess :: "string list" where
  \<open>cell_preprocess = [
     ''from torchvision import transforms'',
     ''preprocess = transforms.Compose(['',
     ''    transforms.Resize((config.image_size, config.image_size)),'',
     ''    transforms.RandomHorizontalFlip(),'',
     ''    transforms.ToTensor(),'',
     ''    transforms.Normalize([0.5],[0.5]),'',
     ''])''
   ]\<close>

definition cell_transform :: "string list" where
  \<open>cell_transform = [
     ''def transform(examples):'',
     ''    images = [preprocess(image.convert("RGB")) for image in examples["image"]]'',
     ''    return {"images": images}'',
     '''',
     ''dataset.set_transform(transform)''
   ]\<close>

definition cell_dataloader :: "string list" where
  \<open>cell_dataloader = [
     ''import torch'',
     ''train_dataloader = torch.utils.data.DataLoader(dataset, batch_size=config.train_batch_size, shuffle=True)''
   ]\<close>

definition cell_model :: "string list" where
  \<open>cell_model = [
     ''from diffusers import UNet2DModel'',
     '''',
     ''model = UNet2DModel('',
     ''    sample_size = config.sample_size,'',
     ''    in_channels = 3, '',
     ''    out_channels = 3,'',
     ''    layers_per_block = 2, # how many ResNet layers to use per U-Net block'',
     ''    block_out_channels = (128, 128, 256, 256, 512, 512), # number of output channels in each U-Net block'',
     ''    down_block_types = ('',
     ''        'Downblock2D', ## a regular Resnet downsampling block.'',
     ''        'Downblock2D','',
     ''        'Downblock2D','',
     ''        'Downblock2D','',
     ''        'AttnDownblock2D','',
     ''        'Downblock2D','',
     ''    )'',
     ''    up_block_types = ('',
     ''        'Upblock2D','',
     ''        'AttnUpblock2D','',
     ''        'Upblock2D','',
     ''        'Upblock2D','',
     ''        'Upblock2D','',
     ''        'Upblock2D','',
     ''    ),'',
     '')''
   ]\<close>

definition cell_check_shape :: "string list" where
  \<open>cell_check_shape = [
     ''sample_image = dataset[0]['images'].unsqueeze(0)'',
     ''print("Input shape:", sample_image.shape)'',
     '''',
     ''print("Output shape:"), model(sample_image, timestep=0).sample.shape''
   ]\<close>

definition cell_scheduler :: "string list" where
  \<open>cell_scheduler = [
     ''import torch'',
     '''',
     ''from PIL import Image'',
     ''from diffusers import DDPMScheduler'',
     '''',
     ''noise_scheduler = DDPMScheduler(num_train_timesteps=1000)'',
     ''noise = torch.randn(sample_image.shape)'',
     ''timesteps = torch.LongTensor([50])'',
     ''noisy_image = noise_scheduler.add_noise(sample_iamge,noise,timesteps)'',
     '''',
     ''Image.fromarray(((noisy_image.permute(0, 2, 3, 1) + 1.0) * 127.5).type(torch.uint8).numpy()[0])''
   ]\<close>

definition cell_loss :: "string list" where
  \<open>cell_loss = [
     ''import torch.nn.functional as F'',
     '''',
     ''noise_pred = model(noisy_image, timesteps).sample'',
     ''loss = F.mse_loss(noise_pred, noise)''
   ]\<close>

definition cell_optimizer :: "string list" where
  \<open>cell_optimizer = [
     ''from diffusers.optimization import get_cosine_schedule_with_warmup'',
     ''from torch.optim import AdamW'',
     '''',
     ''optimizer = AdamW(model.parameters(), lr=config.learning_rate)'',
     ''lr_scheduler = get_cosine_schedule_with_warmup('',
     ''    optimizer=optimizer, '',
     ''    num_warmup_steps=config.lr_warmup_steps,'',
     ''    num_training_steps=(len(train_dataloader) * config.num_epochs),''
   ]\<close>

definition cell_evaluate :: "string list" where
  \<open>cell_evaluate = [
     ''from diffusers import DDPMPipeline'',
     ''from diffusers.util import make_image_grid'',
     ''import os'',
     '''',
     ''def evaluate(config, epoch, pipeline):'',
     ''    ## sample some images from random noise (this is the backward diffusion process).'',
     ''    # The default pipeline output type is 'List[PIL.Image]'' @ [CHR 0x27],
     ''    images = pipeline('',
     ''        batch_size=config.eval_batch_size,'',
     ''        generator=torch.Generator(device='cpu').manual_seed(config.seed), ## use a separate torch generator to avoid rewinding the random state of the main training loop'',
     ''    ).images'',
     '''',
     ''    # make a grid out of the images'',
     ''    image_grid = make_image_grid(images, rows=4, cols=4)'',
     '''',
     ''    # save the images'',
     ''    test_dir = os.path.join(config.output_dir, "test_images")'',
     ''    os.makedirs(test_dir, exist_ok=True)'',
     ''    image_grid.save(f"{test_dir}/{epoch:04d}.png")''
   ]\<close>

definition cell_train_loop :: "string list" where
  \<open>cell_train_loop = [
     ''from accelerate import Accelerator'',
     ''from tqdm.auto import tqdm'',
     ''from pathlib import Path'',
     ''import os'',
     '''',
     ''def train_loop(config, model, noise_scheduler, optimizer, train_dataloader, lr_scheduler):'',
     ''    # initialize accelerator and tensorboard logging'',
     ''    accelerator = Accelerator('',
     ''        mixed_precision=config.mixed_precision,'',
     ''        gradient_accumulation_steps=config.gradient_accumulation_steps,'',
     ''        log_with='tensorboard','',
     ''        project_dir=os.path.join(config.output_dir, "logs"),'',
     ''    )'',
     '''',
     ''    if accelerator.is_main_process:'',
     ''        if config.output_dir is not None:'',
     ''            os.makedirs(config.output_dir, exist_ok=True)'',
     ''            if config.push_to_hub:'',
     ''                repo_id = create_repo('',
     ''                    repo_id=config.hub_model_id or Path(config.output_dir).name, exist_ok=True'',
     ''                    ).repo_id'',
     ''            accelerator.init_trackers('train_example')'',
     ''    '',
     ''    model, optimizer, train_dataloader, lr_scheduler = accelerator.prepare('',
     ''        model, optimizer, train_dataloader, lr_scheduler'',
     ''    )'',
     '''',
     ''    global_step = 0'',
     '''',
     ''    # Now you train the model'',
     ''    for epoch in range(config.num_epochs):'',
     ''        progress_bar = tqdm(total=len(train_dataloader), disable=not accelerator.is_local_main_process)'',
     ''        progress_bar.set_description(f"Epoch {epoch}")'',
     '''',
     ''        for step, batch in enumerate(train_dataloader):'',
     ''            clean_images = batch["images"]'',
     ''            # sample noise to add to the image'',
     ''            noise = torch.randn(clean_images.shape, device=clean_images.device)'',
     ''            bs = clean_images.shape[0]'',
     ''        '',
     ''            # sample a random timestep for each image'',
     ''            timesteps = torch.randint(0, noise_scheduler.num_timesteps, (bs,), device=clean_images.device,'',
     ''                                  dtype=torch.int64'',
     ''            )'',
     '''',
     ''        # Add noise to the clean images according to the noise magnitude at each timestep '',
     ''        # this is the forward diffusion process'',
     ''        noise_images = noise_scheduler.add_noise(clean_images, noise, timesteps)'',
     '''',
     ''        with accelerator.accumulate(model):'',
     ''            # predict the noise schedule'',
     ''            noise_pred = model(noisy_images, timesteps, return_dict=False)[0]'',
     ''            loss = F.mse_loss(noise_pred, noise)'',
     ''            accelerator.backward(loss)'',
     '''',
     ''            if accelerator.sync_gradients:'',
     ''                accelerator.clip_grad_norm_(model.parameters(), 1.0)'',
     ''            optimizer.step()'',
     ''            lr_scheduler.step()'',
     ''            optimizer.zero_grad()'',
     '''',
     ''        progress_bar.update(1)'',
     ''        logs = {'loss': loss.detach().item(), 'lr':lr_scheduler.get_last_lr()[0], 'step': global_step}'',
     ''        progress_bar.set_postfix(**logs)'',
     ''        accelerator.log(logs, step=global_step)'',
     ''        global_step += 1'',
     '''',
     ''    # After each epoch you optionally sample some demo images with evaluate() and save the model'',
     ''    if accelerator.is_main_process:'',
     ''        pipeline = DDPMPipeline(unet=accelerator.unwrap_model(model), scheduler=noise_scheduler)'',
     '''',
     ''        if (epoch + 1) % config.save_model_epochs == 0 or epoch == config.num_epochs - 1:'',
     ''            if config.push_to_hub:'',
     ''                upload_folder('',
     ''                    repo_id=repo_id,'',
     ''                    folder_path=config.output_dir,'',
     ''                    commit_message=f"Epoch {epoch}",'',
     ''                    ignore_patterns=["step_*","epoch_*"],'',
     ''                )'',
     ''            else:'',
     ''                pipeline.save_pretrained(config.output_dir)'',
     ''                '',
     ''''
   ]\<close>

definition cell_launch :: "string list" where
  \<open>cell_launch = [
     ''from accelerate import notebook_launcher'',
     ''args = (config, model, noise_scheduler, optimizer, train_dataloader, lr_scheduler)'',
     ''notebook_launcher(train_loop, args, num_processes=1)''
   ]\<close>

definition cell_show_result :: "string list" where
  \<open>cell_show_result = [
     ''import glob'',
     '''',
     ''sampel_images = sorted(glob.glob(f"{config.output_dir}/samples/*.png"))'',
     ''Image.open(sample_images[-1])''
   ]\<close>

definition notebook :: "string list list" where
  "notebook = [cell_install,
     cell_config,
     cell_load_dataset,
     cell_show_images,
     cell_preprocess,
     cell_transform,
     cell_dataloader,
     cell_model,
     cell_check_shape,
     cell_scheduler,
     cell_loss,
     cell_optimizer,
     cell_evaluate,
     cell_train_loop,
     cell_launch,
     cell_show_result]"

section \<open>A lexer for the notebook's Python\<close>

text \<open>
  Claims about what the source contains are settled on its tokens. The lexer covers the
  lexical forms of Python that occur in the notebook: names, numbers, one-line strings
  (with the prefix \<^verbatim>\<open>f\<close>), comments, and operators of one or two characters. A line that
  starts with \<^verbatim>\<open>!\<close> is an IPython shell escape and is not Python text.
\<close>

datatype token =
    NAME string
  | NUMBER string
  | STRING string
  | OP string
  | SHELL string
  | ERRORTOKEN

datatype mode =
    Idle
  | InComment
  | InName string
  | InNumber string
  | InString char string
  | InOp char

definition is_alpha :: "char \<Rightarrow> bool" where
  "is_alpha c = (let n = (of_char c :: nat) in (97 \<le> n \<and> n \<le> 122) \<or> (65 \<le> n \<and> n \<le> 90) \<or> n = 95)"

definition is_digit :: "char \<Rightarrow> bool" where
  "is_digit c = (let n = (of_char c :: nat) in 48 \<le> n \<and> n \<le> 57)"

definition is_quote :: "char \<Rightarrow> bool" where
  "is_quote c = (if c = CHR 0x27 then True else c = CHR 0x22)"

text \<open>
  Operators of two characters: an operator character followed by \<^verbatim>\<open>=\<close>, one of
  \<^verbatim>\<open>* / < >\<close> doubled, and \<^verbatim>\<open>->\<close>.
\<close>

definition two_char_op :: "char \<Rightarrow> char \<Rightarrow> bool" where
  "two_char_op a c =
     (if c = CHR ''='' then a \<in> set ''=!<>+-*/%|&^@:''
      else if c = a then a \<in> set ''*/<>''
      else if c = CHR ''>'' then a = CHR ''-''
      else False)"

definition start :: "char \<Rightarrow> mode" where
  "start c =
     (if c = CHR '' '' then Idle
      else if is_alpha c then InName [c]
      else if is_digit c then InNumber [c]
      else if is_quote c then InString c []
      else if c = CHR ''#'' then InComment
      else if c = CHR 0x09 then Idle
      else InOp c)"

text \<open>The characters of the token being read are accumulated in reverse.\<close>

fun scan :: "mode \<Rightarrow> string \<Rightarrow> token list" where
  "scan Idle [] = []"
| "scan InComment [] = []"
| "scan (InName a) [] = [NAME (rev a)]"
| "scan (InNumber a) [] = [NUMBER (rev a)]"
| "scan (InString q a) [] = [ERRORTOKEN]"
| "scan (InOp a) [] = [OP [a]]"
| "scan Idle (c # cs) = scan (start c) cs"
| "scan InComment (c # cs) = scan InComment cs"
| "scan (InName a) (c # cs) =
     (if is_alpha c then scan (InName (c # a)) cs
      else if is_digit c then scan (InName (c # a)) cs
      else if is_quote c then
        (if a \<in> set [''f'', ''r'', ''b'', ''u''] then scan (InString c []) cs
         else NAME (rev a) # scan (start c) cs)
      else NAME (rev a) # scan (start c) cs)"
| "scan (InNumber a) (c # cs) =
     (if is_digit c then scan (InNumber (c # a)) cs
      else if is_alpha c then scan (InNumber (c # a)) cs
      else if c = CHR ''.'' then scan (InNumber (c # a)) cs
      else if c = CHR ''-'' then
        (if hd a \<in> set ''eE'' then scan (InNumber (c # a)) cs else NUMBER (rev a) # scan (start c) cs)
      else if c = CHR ''+'' then
        (if hd a \<in> set ''eE'' then scan (InNumber (c # a)) cs else NUMBER (rev a) # scan (start c) cs)
      else NUMBER (rev a) # scan (start c) cs)"
| "scan (InString q a) (c # cs) =
     (if c = q then STRING (rev a) # scan Idle cs else scan (InString q (c # a)) cs)"
| "scan (InOp a) (c # cs) =
     (if two_char_op a c then OP [a, c] # scan Idle cs else OP [a] # scan (start c) cs)"

definition lex_line :: "string \<Rightarrow> token list" where
  "lex_line l = (case l of [] \<Rightarrow> [] | c # cs \<Rightarrow> if c = CHR ''!'' then [SHELL cs] else scan Idle l)"

subsection \<open>Statements\<close>

text \<open>
  A statement (a logical line) is a line together with the lines that follow it while a
  bracket is open. \<open>brackets st ts\<close> is the stack of open brackets after the tokens \<open>ts\<close>,
  starting from the stack \<open>st\<close>, or \<open>None\<close> when a closing bracket has no partner.
\<close>

definition open_brackets :: "string list" where
  "open_brackets = [''('', ''['', ''{'']"

definition close_brackets :: "string list" where
  "close_brackets = ['')'', '']'', ''}'']"

definition closes :: "string \<Rightarrow> string \<Rightarrow> bool" where
  "closes b c = ((b, c) \<in> set [(''('', '')''), (''['', '']''), (''{'', ''}'')])"

fun brackets :: "string list \<Rightarrow> token list \<Rightarrow> string list option" where
  "brackets st [] = Some st"
| "brackets st (OP x # ts) =
     (if x \<in> set open_brackets then brackets (x # st) ts
      else if x \<in> set close_brackets then
        (if st = [] then None else if closes (hd st) x then brackets (tl st) ts else None)
      else brackets st ts)"
| "brackets st (_ # ts) = brackets st ts"

text \<open>
  The state while the lines of a cell are read: the stack of open brackets, the tokens
  of the statement being read, and the statements read so far.
\<close>

type_synonym reader = "string list \<times> token list \<times> token list list"

fun after_line :: "token list \<Rightarrow> token list list \<Rightarrow> string list option \<Rightarrow> reader" where
  "after_line ts out None = ([], [], out @ [ts])"
| "after_line ts out (Some st) = (if st = [] then ([], [], out @ [ts]) else (st, ts, out))"

fun add_line :: "reader \<Rightarrow> string \<Rightarrow> reader" where
  "add_line (st, acc, out) l = after_line (acc @ lex_line l) out (brackets st (lex_line l))"

fun finish :: "reader \<Rightarrow> token list list" where
  "finish (st, acc, out) = filter (\<lambda>ts. ts \<noteq> []) (out @ [acc])"

definition statements :: "string list \<Rightarrow> token list list" where
  "statements ls = finish (foldl add_line ([], [], []) ls)"

definition cell_statements :: "token list list list" where
  "cell_statements = map statements notebook"

definition notebook_statements :: "token list list" where
  "notebook_statements = concat cell_statements"

subsection \<open>Three lexical conditions that make a cell a syntax error\<close>

text \<open>
  Each condition is sufficient for the Python parser to reject the cell:
  \<^item> \<open>unbalanced\<close>: a closing bracket without its opener, or a bracket still open at the
    end of the cell;
  \<^item> \<open>adjacent_infix\<close>: an infix operator directly followed by an operator that has no
    prefix use (\<^verbatim>\<open>/ <\<close>): the right operand is missing;
  \<^item> \<open>juxtaposed\<close>: inside brackets, where line ends do not separate statements, a
    closing bracket directly followed by a name that is not a keyword: the separator
    between two items is missing.
\<close>

definition unbalanced :: "token list \<Rightarrow> bool" where
  "unbalanced ts = (brackets [] ts \<noteq> Some [])"

definition infix_only_ops :: "string list" where
  "infix_only_ops = [''/'', ''//'', ''%'', ''<'', ''>'', ''<='', ''>='', ''=='', ''!='']"

definition infix_ops :: "string list" where
  "infix_ops = infix_only_ops @ [''+'', ''-'', ''*'', ''**'']"

fun adjacent_infix :: "token list \<Rightarrow> bool" where
  "adjacent_infix (OP a # OP b # ts) =
     (if b \<in> set infix_only_ops then (if a \<in> set infix_ops then True else adjacent_infix (OP b # ts))
      else adjacent_infix (OP b # ts))"
| "adjacent_infix (_ # ts) = adjacent_infix ts"
| "adjacent_infix [] = False"

definition py_keywords :: "string list" where
  "py_keywords = [''False'', ''None'', ''True'', ''and'', ''as'', ''assert'', ''async'', ''await'',
     ''break'', ''class'', ''continue'', ''def'', ''del'', ''elif'', ''else'', ''except'',
     ''finally'', ''for'', ''from'', ''global'', ''if'', ''import'', ''in'', ''is'', ''lambda'',
     ''nonlocal'', ''not'', ''or'', ''pass'', ''raise'', ''return'', ''try'', ''while'', ''with'',
     ''yield'']"

text \<open>\<open>juxtaposed d p ts\<close>: \<open>d\<close> is the bracket depth, \<open>p\<close> whether the last token closed a bracket.\<close>

fun juxtaposed :: "nat \<Rightarrow> bool \<Rightarrow> token list \<Rightarrow> bool" where
  "juxtaposed d p [] = False"
| "juxtaposed d p (OP x # ts) =
     (if x \<in> set open_brackets then juxtaposed (Suc d) False ts
      else if x \<in> set close_brackets then juxtaposed (d - 1) True ts
      else juxtaposed d False ts)"
| "juxtaposed d p (NAME x # ts) =
     (if p then
        (if 0 < d then (if x \<in> set py_keywords then juxtaposed d False ts else True)
         else juxtaposed d False ts)
      else juxtaposed d False ts)"
| "juxtaposed d p (_ # ts) = juxtaposed d False ts"

definition statement_error :: "token list \<Rightarrow> bool" where
  "statement_error ts =
     (if unbalanced ts then True else if adjacent_infix ts then True else juxtaposed 0 False ts)"

definition has_syntax_error :: "string list \<Rightarrow> bool" where
  "has_syntax_error cell = list_ex statement_error (statements cell)"

subsection \<open>Running the notebook\<close>

text \<open>
  "Run All" executes the code cells in order and stops at the first cell that raises. A
  cell is compiled as a whole before any of its statements runs, so a cell with a syntax
  error raises whatever the libraries do. Whether another cell raises depends on the
  libraries: \<open>ok i\<close> says that cell \<open>i\<close> runs to its end. \<open>run_all\<close> returns the index of
  the cell at which the run stops, or \<open>None\<close> when every cell has run.
\<close>

fun run_all :: "(nat \<Rightarrow> bool) \<Rightarrow> nat \<Rightarrow> string list list \<Rightarrow> nat option" where
  "run_all ok i [] = None"
| "run_all ok i (c # cs) =
     (if has_syntax_error c then Some i
      else if ok i then run_all ok (Suc i) cs
      else Some i)"

subsection \<open>Definitions, imports and calls in the source\<close>

text \<open>
  The name after \<^verbatim>\<open>def\<close> or \<^verbatim>\<open>class\<close> at the start of a statement (what the
  repository defines itself), the top-level package of an \<^verbatim>\<open>import m\<close> or
  \<^verbatim>\<open>from m import ...\<close> statement, and the keyword that starts a statement.
\<close>

definition defined_name :: "token list \<Rightarrow> string list" where
  "defined_name ts =
     (case ts of NAME k # NAME x # _ \<Rightarrow> if k \<in> set [''def'', ''class''] then [x] else [] | _ \<Rightarrow> [])"

definition imported_package :: "token list \<Rightarrow> string list" where
  "imported_package ts =
     (case ts of NAME k # NAME m # _ \<Rightarrow> if k \<in> set [''import'', ''from''] then [m] else [] | _ \<Rightarrow> [])"

definition leading_keyword :: "token list \<Rightarrow> string list" where
  "leading_keyword ts = (case ts of NAME k # _ \<Rightarrow> if k \<in> set py_keywords then [k] else [] | _ \<Rightarrow> [])"

text \<open>\<open>take_args d ts\<close>: the tokens up to the bracket that closes the argument list.\<close>

fun take_args :: "nat \<Rightarrow> token list \<Rightarrow> token list" where
  "take_args d [] = []"
| "take_args d (OP x # ts) =
     (if x \<in> set open_brackets then OP x # take_args (Suc d) ts
      else if x \<in> set close_brackets then (if d = 0 then [] else OP x # take_args (d - 1) ts)
      else OP x # take_args d ts)"
| "take_args d (t # ts) = t # take_args d ts"

text \<open>
  \<open>calls_of f p ts\<close>: the argument tokens of every call \<^verbatim>\<open>f(...)\<close> in \<open>ts\<close>; \<open>p\<close> says that
  the last token was \<^verbatim>\<open>def\<close>, in which case \<^verbatim>\<open>f(\<close> starts a definition, not a call.
\<close>

fun calls_of :: "string \<Rightarrow> bool \<Rightarrow> token list \<Rightarrow> token list list" where
  "calls_of f p [] = []"
| "calls_of f p (NAME x # ts) =
     (if x = f \<and> \<not> p then
        (case ts of
           OP y # ts' \<Rightarrow> if y = ''('' then take_args 0 ts' # calls_of f False ts else calls_of f False ts
         | _ \<Rightarrow> calls_of f False ts)
      else calls_of f (x = ''def'') ts)"
| "calls_of f p (_ # ts) = calls_of f False ts"

text \<open>How often a name occurs in the statements.\<close>

definition occurrences :: "string \<Rightarrow> token list list \<Rightarrow> nat" where
  "occurrences x ss = length (concat (map (filter (\<lambda>t. t = NAME x)) ss))"

definition async_tokens :: "token list \<Rightarrow> token list" where
  "async_tokens ts = filter (\<lambda>t. t \<in> set [NAME ''async'', NAME ''await'']) ts"

definition concurrency_packages :: "string list" where
  "concurrency_packages = [''threading'', ''_thread'', ''multiprocessing'', ''concurrent'', ''asyncio'',
     ''subprocess'', ''queue'', ''sched'', ''signal'', ''select'', ''selectors'']"

subsection \<open>Uses of the configuration object\<close>

datatype use = Write string | Read string | Rebind | Pass

definition assign_ops :: "string list" where
  "assign_ops = [''='', ''+='', ''-='', ''*='', ''/='', ''%='', ''|='', ''&='', ''^='', ''@='', '':='']"

text \<open>
  What follows an occurrence of the name \<^verbatim>\<open>config\<close>: \<^verbatim>\<open>.f\<close> and an assignment operator (the
  attribute is written), \<^verbatim>\<open>.f\<close> and anything else (it is read), \<^verbatim>\<open>=\<close> (the name is bound),
  or something else (the object is passed on: an argument or a parameter).
\<close>

definition classify :: "token list \<Rightarrow> use" where
  "classify ts =
     (case ts of
        OP d # NAME f # rest \<Rightarrow>
          if d = ''.'' then
            (case rest of
               OP e # _ \<Rightarrow> if e \<in> set assign_ops then Write f else Read f
             | _ \<Rightarrow> Read f)
          else if d = ''='' then Rebind
          else Pass
      | OP d # _ \<Rightarrow> if d = ''='' then Rebind else Pass
      | _ \<Rightarrow> Pass)"

fun config_uses :: "token list \<Rightarrow> use list" where
  "config_uses [] = []"
| "config_uses (NAME x # ts) = (if x = ''config'' then classify ts # config_uses ts else config_uses ts)"
| "config_uses (_ # ts) = config_uses ts"

fun is_read :: "use \<Rightarrow> bool" where
  "is_read (Read f) = True"
| "is_read _ = False"

text \<open>
  The attributes of a class body: the indented lines \<^verbatim>\<open>name = ...\<close> that follow the
  \<^verbatim>\<open>class\<close> line, up to the first line that is neither indented nor empty.
\<close>

definition indented_or_empty :: "string \<Rightarrow> bool" where
  "indented_or_empty l = (case l of [] \<Rightarrow> True | c # _ \<Rightarrow> c = CHR '' '')"

definition attr_of_line :: "string \<Rightarrow> string list" where
  "attr_of_line l =
     (case lex_line l of NAME x # OP e # _ \<Rightarrow> if e = ''='' then [x] else [] | _ \<Rightarrow> [])"

definition is_class_line :: "string \<Rightarrow> bool" where
  "is_class_line l = (case lex_line l of NAME k # _ \<Rightarrow> k = ''class'' | _ \<Rightarrow> False)"

definition class_attrs :: "string list \<Rightarrow> string list" where
  "class_attrs ls = concat (map attr_of_line (takeWhile indented_or_empty (drop 1 (dropWhile (\<lambda>l. \<not> is_class_line l) ls))))"

text \<open>
  The fields that the specification lists for the configuration record: image resolution,
  batch sizes (train and eval), epoch count, learning rate, warm-up steps, checkpoint
  cadence (images and model), mixed-precision flag, output directory, random seed.
\<close>

definition spec_config_fields :: "string list" where
  "spec_config_fields = [''image_size'', ''train_batch_size'', ''eval_batch_size'', ''num_epochs'',
     ''learning_rate'', ''lr_warmup_steps'', ''save_image_epochs'', ''save_model_epochs'',
     ''mixed_precision'', ''output_dir'', ''seed'']"

section \<open>Predicates on runs\<close>

text \<open>\<open>wp m Q s\<close>: the outcome and the final state of \<open>m\<close>, started in \<open>s\<close>, satisfy \<open>Q\<close>.\<close>

definition wp :: "'a py \<Rightarrow> (exn + 'a \<Rightarrow> st \<Rightarrow> bool) \<Rightarrow> st \<Rightarrow> bool" where
  "wp m Q s = (case m s of (r, s') \<Rightarrow> Q r s')"

subsection \<open>Propagation of library exceptions\<close>




subsection \<open>Paths handed to the library\<close>









subsection \<open>Independence from the history\<close>









subsection \<open>Uses of the configuration after its construction\<close>

text \<open>
  \<^verbatim>\<open>config = TrainingConfig()\<close> is the last statement of the second code cell; the
  statements after it are those of the cells that follow.
\<close>

definition uses_after_construction :: "use list" where
  "uses_after_construction = concat (map config_uses (concat (drop 2 cell_statements)))"

subsection \<open>Calls that evaluate and persist\<close>

text \<open>
  The library calls of the block that saves the model in \<^verbatim>\<open>train_loop\<close>, and those by
  which \<^verbatim>\<open>evaluate\<close> samples and saves.
\<close>

definition persist_calls :: "string list" where
  "persist_calls = [''pipeline.save_pretrained'', ''upload_folder'', ''DDPMPipeline'',
     ''accelerator.unwrap_model'', ''pipeline'', ''make_image_grid'', ''image_grid.save'']"

section \<open>Properties\<close>

subsection \<open>Character classes by their bits\<close>

lemma is_digit_code [code]:
  "is_digit (Char b0 b1 b2 b3 b4 b5 b6 b7) =
     (\<not> b7 \<and> \<not> b6 \<and> b5 \<and> b4 \<and> (\<not> b3 \<or> (\<not> b2 \<and> \<not> b1)))"
  by (cases b0; cases b1; cases b2; cases b3; cases b4; cases b5; cases b6; cases b7;
      simp add: is_digit_def)

lemma is_alpha_code [code]:
  "is_alpha (Char b0 b1 b2 b3 b4 b5 b6 b7) =
     (\<not> b7 \<and> b6 \<and>
      (((b0 \<or> b1 \<or> b2 \<or> b3 \<or> b4) \<and> \<not> (b4 \<and> b3 \<and> (b2 \<or> (b1 \<and> b0))))
       \<or> (\<not> b5 \<and> b0 \<and> b1 \<and> b2 \<and> b3 \<and> b4)))"
  by (cases b0; cases b1; cases b2; cases b3; cases b4; cases b5; cases b6; cases b7;
      simp add: is_alpha_def)

subsection \<open>Laws of sequencing and of traces\<close>

lemma pbind_ret [simp]: "pbind (ret v) f = f v"
  by (simp add: pbind_def ret_def)

lemma pbind_raise [simp]: "pbind (raise e) f = raise e"
  by (simp add: pbind_def raise_def)

lemma pbind_assoc [simp]: "pbind (pbind m f) g = pbind m (\<lambda>x. pbind (f x) g)"
  by (auto simp: pbind_def fun_eq_iff split: prod.splits sum.splits)

lemmas combinators =
  pthen_def expr_def assign_def gcall_def mcall_def getattr_def subscript_def pif_def pnot_def
  por_def pwith_def

lemma err_simps [simp]: "err (Inl e) = Some e" "err (Inr v) = None"
  by (simp_all add: err_def)

lemma traces_ret: "seq_closed R \<Longrightarrow> traces R (ret v)"
  by (simp add: traces_def seq_closed_def ret_def)

lemma traces_raise: "seq_closed R \<Longrightarrow> traces R (raise e)"
  by (simp add: traces_def seq_closed_def raise_def)

lemma traces_lread: "seq_closed R \<Longrightarrow> traces R (lread x)"
  by (simp add: traces_def seq_closed_def lread_def split: option.splits)

lemma traces_lset: "seq_closed R \<Longrightarrow> traces R (lset x v)"
  by (simp add: traces_def seq_closed_def lset_def)

lemma traces_gread: "seq_closed R \<Longrightarrow> traces R (gread w x)"
  by (simp add: gread_def traces_ret traces_raise split: option.splits)

lemma traces_lcall: "(\<And>h. R h [(f, args)] (err (lib w h (f, args)))) \<Longrightarrow> traces R (lcall w f args)"
  by (simp add: traces_def lcall_def)

lemma traces_pbind:
  assumes R: "seq_closed R" and m: "traces R m" and f: "\<And>v. traces R (f v)"
  shows "traces R (pbind m f)"
  unfolding traces_def
proof
  fix s
  from m obtain a where a: "trace (snd (m s)) = trace s @ a" "R (trace s) a (err (fst (m s)))"
    unfolding traces_def by blast
  show "\<exists>new. trace (snd (pbind m f s)) = trace s @ new \<and> R (trace s) new (err (fst (pbind m f s)))"
  proof (cases "m s")
    case (Pair r s1)
    show ?thesis
    proof (cases r)
      case (Inl e)
      with Pair a show ?thesis by (auto simp: pbind_def)
    next
      case (Inr v)
      from f [of v] obtain b where b: "trace (snd (f v s1)) = trace s1 @ b"
          "R (trace s1) b (err (fst (f v s1)))"
        unfolding traces_def by blast
      from Pair Inr a have "R (trace s) a None" "trace s1 = trace s @ a" by (simp_all add: err_def)
      with b R have "R (trace s) (a @ b) (err (fst (f v s1)))" "trace (snd (f v s1)) = trace s @ a @ b"
        unfolding seq_closed_def by auto
      with Pair Inr show ?thesis by (auto simp: pbind_def)
    qed
  qed
qed

lemma traces_pbind_fails:
  assumes m: "traces R m" and "fails m"
  shows "traces R (pbind m f)"
proof -
  have "fst (pbind m f s) = Inl (projl (fst (m s))) \<and> snd (pbind m f s) = snd (m s)" for s
  proof -
    from assms(2) have "isl (fst (m s))"
      by (simp add: fails_def)
    then show ?thesis
      by (cases "m s") (auto simp: pbind_def split: sum.splits)
  qed
  moreover have "err (fst (m s)) = Some (projl (fst (m s)))" for s
  proof -
    from assms(2) have "isl (fst (m s))"
      by (simp add: fails_def)
    then show ?thesis
      by (cases "fst (m s)") simp_all
  qed
  ultimately show ?thesis
    using m unfolding traces_def by simp
qed

lemma traces_as_int: "seq_closed R \<Longrightarrow> traces R (as_int v)"
  by (cases v) (simp_all add: as_int_def traces_ret traces_raise)

lemma traces_py_mod: "seq_closed R \<Longrightarrow> traces R (py_mod a b)"
  by (simp add: py_mod_def traces_ret traces_raise)

lemma traces_os_path_join: "seq_closed R \<Longrightarrow> traces R (os_path_join a b)"
  by (cases a) (simp_all add: os_path_join_def traces_ret traces_raise)


lemma traces_if: "traces R a \<Longrightarrow> traces R b \<Longrightarrow> traces R (if c then a else b)"
  by simp

lemma traces_for_in:
  assumes "seq_closed R" and "\<And>x. traces R (body x)"
  shows "traces R (for_in xs body)"
  by (induction xs) (simp_all add: assms pthen_def traces_ret traces_pbind)

lemma traces_block:
  assumes "seq_closed R" and "list_all (traces R) ms"
  shows "traces R (block ms)"
  using assms(2) by (induction ms) (simp_all add: assms(1) pthen_def traces_ret traces_pbind)

lemmas traces_intros =
  traces_ret traces_raise traces_lread traces_lset traces_gread traces_pbind traces_if traces_for_in
  traces_as_int traces_py_mod traces_os_path_join

lemma seq_closed_quiet: "seq_closed (quiet F)"
  by (simp add: seq_closed_def quiet_def)

lemma quiet_lcall: "f \<notin> set F \<Longrightarrow> traces (quiet F) (lcall w f args)"
  by (rule traces_lcall) (simp add: quiet_def)

lemma fails_raise: "fails (raise e)"
  by (simp add: fails_def raise_def)

lemma fails_pbind1:
  assumes "fails m"
  shows "fails (pbind m f)"
  unfolding fails_def
proof
  fix s
  from assms have "isl (fst (m s))"
    by (simp add: fails_def)
  then show "isl (fst (pbind m f s))"
    by (cases "m s") (auto simp: pbind_def split: sum.splits)
qed

lemma fails_pbind2: "(\<And>v. fails (f v)) \<Longrightarrow> fails (pbind m f)"
  by (auto simp: fails_def pbind_def split: prod.splits sum.splits)

lemma fails_if: "fails a \<Longrightarrow> fails b \<Longrightarrow> fails (if c then a else b)"
  by simp

lemma traces_unpack: "seq_closed R \<Longrightarrow> traces R (unpack xs v)"
  by (cases v) (auto simp: unpack_def traces_raise list_all_iff intro!: traces_block traces_lset)

subsection \<open>Running a computation from a state\<close>









lemma traces_wp:
  assumes "traces R m"
  shows "wp m (\<lambda>r s'. R (trace s) (drop (length (trace s)) (trace s')) (err r)) s"
proof -
  from assms obtain new where "trace (snd (m s)) = trace s @ new"
      "R (trace s) new (err (fst (m s)))"
    unfolding traces_def by blast
  then show ?thesis
    by (cases "m s") (simp add: wp_def)
qed

subsection \<open>One pass over the source text\<close>

text \<open>
  The statements of the sixteen cells are computed once; the facts about the source
  text that the claims need are read off this pass.
\<close>

lemma notebook_scan:
  "(let cs = map statements notebook; ss = concat cs in
      (map (list_ex statement_error) cs,
       concat (map (calls_of ''notebook_launcher'' False) ss),
       concat (map (calls_of ''train_loop'' False) ss),
       concat (map (calls_of ''evaluate'' False) ss),
       concat (map defined_name ss),
       concat (map imported_package ss),
       concat (map leading_keyword ss),
       concat (map async_tokens ss),
       concat (map config_uses (concat (drop 2 cs))),
       last (cs ! 1),
       occurrences ''noisy_images'' ss,
       occurrences ''noise_images'' ss))
   = ([False, True, False, False, False, False, False, True,
       False, False, False, True, False, False, False, False],
      [[NAME ''train_loop'', OP '','', NAME ''args'', OP '','',
        NAME ''num_processes'', OP ''='', NUMBER ''1'']],
      [],
      [],
      [''TrainingConfig'', ''transform'', ''evaluate'', ''train_loop''],
      [''dataclasses'', ''dataset'', ''matplotlib'', ''torchvision'', ''torch'', ''diffusers'',
       ''torch'', ''PIL'', ''diffusers'', ''torch'', ''diffusers'', ''torch'', ''diffusers'',
       ''diffusers'', ''os'', ''accelerate'', ''tqdm'', ''pathlib'', ''os'', ''accelerate'', ''glob''],
      [''from'', ''class'', ''from'', ''import'', ''for'', ''from'', ''def'', ''return'', ''import'',
       ''from'', ''import'', ''from'', ''from'', ''import'', ''from'', ''from'', ''from'', ''from'',
       ''import'', ''def'', ''from'', ''from'', ''from'', ''import'', ''def'', ''if'', ''if'', ''if'',
       ''for'', ''for'', ''with'', ''if'', ''if'', ''if'', ''if'', ''else'', ''from'', ''import''],
      [],
      [Write ''dataset_name'', Read ''dataset_name'', Read ''image_size'', Read ''image_size'',
       Read ''train_batch_size'', Read ''sample_size'', Read ''learning_rate'',
       Read ''lr_warmup_steps'', Read ''num_epochs'', Pass, Read ''eval_batch_size'', Read ''seed'',
       Read ''output_dir'', Pass, Read ''mixed_precision'', Read ''gradient_accumulation_steps'',
       Read ''output_dir'', Read ''output_dir'', Read ''output_dir'', Read ''push_to_hub'',
       Read ''hub_model_id'', Read ''output_dir'', Read ''num_epochs'', Read ''save_model_epochs'',
       Read ''num_epochs'', Read ''push_to_hub'', Read ''output_dir'', Read ''output_dir'', Pass],
      [NAME ''config'', OP ''='', NAME ''TrainingConfig'', OP ''('', OP '')''],
      1,
      1)"
  by code_simp

lemma cell_errors:
  "map has_syntax_error notebook =
     [False, True, False, False, False, False, False, True,
      False, False, False, True, False, False, False, False]"
proof -
  have "map has_syntax_error notebook = map (list_ex statement_error) (map statements notebook)"
    by (simp add: has_syntax_error_def)
  with notebook_scan show ?thesis
    by (simp add: Let_def)
qed

lemma launcher_calls:
  "concat (map (calls_of ''notebook_launcher'' False) notebook_statements) =
     [[NAME ''train_loop'', OP '','', NAME ''args'', OP '','',
       NAME ''num_processes'', OP ''='', NUMBER ''1'']]"
  using notebook_scan by (simp add: Let_def notebook_statements_def cell_statements_def)

lemma train_loop_calls: "concat (map (calls_of ''train_loop'' False) notebook_statements) = []"
  using notebook_scan by (simp add: Let_def notebook_statements_def cell_statements_def)

lemma evaluate_calls: "concat (map (calls_of ''evaluate'' False) notebook_statements) = []"
  using notebook_scan by (simp add: Let_def notebook_statements_def cell_statements_def)

lemma defined_names_eq:
  "concat (map defined_name notebook_statements) =
     [''TrainingConfig'', ''transform'', ''evaluate'', ''train_loop'']"
  using notebook_scan by (simp add: Let_def notebook_statements_def cell_statements_def)

lemma imported_packages_eq:
  "concat (map imported_package notebook_statements) =
     [''dataclasses'', ''dataset'', ''matplotlib'', ''torchvision'', ''torch'', ''diffusers'',
      ''torch'', ''PIL'', ''diffusers'', ''torch'', ''diffusers'', ''torch'', ''diffusers'',
      ''diffusers'', ''os'', ''accelerate'', ''tqdm'', ''pathlib'', ''os'', ''accelerate'', ''glob'']"
  using notebook_scan by (simp add: Let_def notebook_statements_def cell_statements_def)


lemma no_async: "concat (map async_tokens notebook_statements) = []"
  using notebook_scan by (simp add: Let_def notebook_statements_def cell_statements_def)

lemma uses_after:
  "uses_after_construction =
     [Write ''dataset_name'', Read ''dataset_name'', Read ''image_size'', Read ''image_size'',
      Read ''train_batch_size'', Read ''sample_size'', Read ''learning_rate'',
      Read ''lr_warmup_steps'', Read ''num_epochs'', Pass, Read ''eval_batch_size'', Read ''seed'',
      Read ''output_dir'', Pass, Read ''mixed_precision'', Read ''gradient_accumulation_steps'',
      Read ''output_dir'', Read ''output_dir'', Read ''output_dir'', Read ''push_to_hub'',
      Read ''hub_model_id'', Read ''output_dir'', Read ''num_epochs'', Read ''save_model_epochs'',
      Read ''num_epochs'', Read ''push_to_hub'', Read ''output_dir'', Read ''output_dir'', Pass]"
  using notebook_scan by (simp add: Let_def uses_after_construction_def cell_statements_def)

lemma noisy_images_once:
  "occurrences ''noisy_images'' notebook_statements = 1"
  "occurrences ''noise_images'' notebook_statements = 1"
  using notebook_scan by (simp_all add: Let_def notebook_statements_def cell_statements_def)

lemma construction_last:
  "last (cell_statements ! 1) =
     [NAME ''config'', OP ''='', NAME ''TrainingConfig'', OP ''('', OP '')'']"
  using notebook_scan by (simp add: Let_def cell_statements_def)

subsection \<open>The cells with syntax errors\<close>

text \<open>
  Claim C4. Three code cells are syntax errors: the configuration cell (the right-hand
  side of \<^verbatim>\<open>hub_model_id\<close> has \<^verbatim>\<open>/\<close> directly followed by \<^verbatim>\<open><\<close>), the model cell (no comma
  between the arguments \<^verbatim>\<open>down_block_types\<close> and \<^verbatim>\<open>up_block_types\<close>) and the optimizer cell
  (the call of \<^verbatim>\<open>get_cosine_schedule_with_warmup\<close> is never closed). Whatever the libraries
  do, running the sixteen cells in order stops at the second cell (index 1), or at the
  first if the shell command raises: the last cell is never reached.
\<close>

theorem notebook_stops_at_syntax_error:
  "map has_syntax_error notebook =
     [False, True, False, False, False, False, False, True,
      False, False, False, True, False, False, False, False]
   \<and> run_all ok 0 notebook = Some (if ok 0 then 1 else 0)
   \<and> length notebook = 16"
proof -
  from cell_errors have a: "\<not> has_syntax_error cell_install" and b: "has_syntax_error cell_config"
    by (simp_all add: notebook_def)
  have r: "run_all ok 0 notebook = Some (if ok 0 then 1 else 0)"
    by (simp add: notebook_def a b)
  have l: "length notebook = 16"
    by (simp add: notebook_def)
  from cell_errors r l show ?thesis
    by (intro conjI)
qed

subsection \<open>One launcher call, no construct of concurrency\<close>

text \<open>
  Claim C10. The notebook calls \<^verbatim>\<open>notebook_launcher\<close> at exactly one place, with the
  arguments \<^verbatim>\<open>train_loop, args, num_processes=1\<close>, and calls \<^verbatim>\<open>train_loop\<close> nowhere itself.
  What the repository defines is the class \<^verbatim>\<open>TrainingConfig\<close> and the functions
  \<^verbatim>\<open>transform\<close>, \<^verbatim>\<open>evaluate\<close> and \<^verbatim>\<open>train_loop\<close>; it imports no package of threads, processes,
  locks, queues, schedulers or signals, and uses neither \<^verbatim>\<open>async\<close> nor \<^verbatim>\<open>await\<close>.
\<close>

theorem single_launcher_call:
  "concat (map (calls_of ''notebook_launcher'' False) notebook_statements) =
     [[NAME ''train_loop'', OP '','', NAME ''args'', OP '','',
       NAME ''num_processes'', OP ''='', NUMBER ''1'']]
   \<and> concat (map (calls_of ''train_loop'' False) notebook_statements) = []
   \<and> concat (map defined_name notebook_statements) =
       [''TrainingConfig'', ''transform'', ''evaluate'', ''train_loop'']
   \<and> filter (\<lambda>m. m \<in> set concurrency_packages) (concat (map imported_package notebook_statements)) = []
   \<and> concat (map async_tokens notebook_statements) = []"
proof -
  have d: "filter (\<lambda>m. m \<in> set concurrency_packages)
       (concat (map imported_package notebook_statements)) = []"
    by (simp add: imported_packages_eq concurrency_packages_def)
  from launcher_calls train_loop_calls defined_names_eq d no_async show ?thesis
    by (intro conjI)
qed

subsection \<open>The attributes of the configuration\<close>

lemma class_attrs_config:
  "class_attrs cell_config =
     [''image_size'', ''train_batch_size'', ''eval_batch_size'', ''num_epochs'',
      ''gradient_accumulation_steps'', ''learning_rate'', ''lr_warmup_steps'',
      ''save_image_epochs'', ''save_model_epochs'', ''mixed_precision'', ''output_dir'',
      ''push_to_hub'', ''hub_model_id'', ''hub_private_repo'', ''overwrite_output_dir'', ''seed'']"
  by code_simp

text \<open>
  Claim C7, as stated, fails: the class body also binds \<^verbatim>\<open>push_to_hub\<close>, which is none of
  the fields that the specification lists.
\<close>

theorem config_fields_counterexample:
  "''push_to_hub'' \<in> set (class_attrs cell_config) \<and> ''push_to_hub'' \<notin> set spec_config_fields"
  by (simp add: class_attrs_config spec_config_fields_def)

text \<open>
  Claim C7, amended. The class body of \<^verbatim>\<open>TrainingConfig\<close> binds exactly sixteen
  attributes: every field that the specification lists, and besides them
  \<^verbatim>\<open>gradient_accumulation_steps\<close>, \<^verbatim>\<open>push_to_hub\<close>, \<^verbatim>\<open>hub_model_id\<close>, \<^verbatim>\<open>hub_private_repo\<close> and
  \<^verbatim>\<open>overwrite_output_dir\<close>.
\<close>

theorem config_fields:
  "class_attrs cell_config =
     [''image_size'', ''train_batch_size'', ''eval_batch_size'', ''num_epochs'',
      ''gradient_accumulation_steps'', ''learning_rate'', ''lr_warmup_steps'',
      ''save_image_epochs'', ''save_model_epochs'', ''mixed_precision'', ''output_dir'',
      ''push_to_hub'', ''hub_model_id'', ''hub_private_repo'', ''overwrite_output_dir'', ''seed'']
   \<and> filter (\<lambda>a. a \<notin> set (class_attrs cell_config)) spec_config_fields = []
   \<and> filter (\<lambda>a. a \<notin> set spec_config_fields) (class_attrs cell_config) =
       [''gradient_accumulation_steps'', ''push_to_hub'', ''hub_model_id'', ''hub_private_repo'',
        ''overwrite_output_dir'']"
  by (simp add: class_attrs_config spec_config_fields_def)

subsection \<open>Assignments to the configuration\<close>

lemma uses_not_read:
  "filter (\<lambda>u. \<not> is_read u) uses_after_construction = [Write ''dataset_name'', Pass, Pass, Pass]"
  by (simp add: uses_after)

text \<open>
  Claim C2, as stated, fails: after the construction of \<^verbatim>\<open>config\<close>, the dataset cell
  assigns to \<^verbatim>\<open>config.dataset_name\<close>.
\<close>

theorem config_assigned_counterexample:
  "Write ''dataset_name'' \<in> set uses_after_construction"
proof -
  have "Write ''dataset_name'' \<in> set (filter (\<lambda>u. \<not> is_read u) uses_after_construction)"
    by (simp add: uses_not_read)
  then show ?thesis
    by simp
qed

text \<open>
  Claim C2, amended. \<^verbatim>\<open>config = TrainingConfig()\<close> is the last statement of the
  configuration cell. Of the occurrences of \<^verbatim>\<open>config\<close> after it, one assigns to an
  attribute, \<^verbatim>\<open>dataset_name\<close>, which the class does not declare; three pass the object on
  (the parameter of \<^verbatim>\<open>evaluate\<close>, the parameter of \<^verbatim>\<open>train_loop\<close>, the tuple \<^verbatim>\<open>args\<close>); every
  other one reads an attribute. So no attribute that \<^verbatim>\<open>TrainingConfig\<close> declares is assigned
  after the construction, and the name is not bound again.
\<close>

theorem config_only_dataset_name_assigned:
  "last (cell_statements ! 1) =
     [NAME ''config'', OP ''='', NAME ''TrainingConfig'', OP ''('', OP '')'']
   \<and> filter (\<lambda>u. \<not> is_read u) uses_after_construction = [Write ''dataset_name'', Pass, Pass, Pass]
   \<and> ''dataset_name'' \<notin> set (class_attrs cell_config)"
proof -
  have c: "''dataset_name'' \<notin> set (class_attrs cell_config)"
    by (simp add: class_attrs_config)
  from construction_last uses_not_read c show ?thesis
    by (intro conjI)
qed

subsection \<open>What the loops of train_loop contain\<close>

lemma batch_body_quiet_for:
  assumes "list_all (\<lambda>f. f \<notin> set F) [''[]'', ''getattr'', ''torch.randn'', ''torch.randint'']"
  shows "traces (quiet F) (batch_body w sb)"
  using assms unfolding batch_body_def
  apply (simp add: combinators split del: if_split)
  apply (intro traces_intros seq_closed_quiet quiet_lcall)
  apply simp_all
  done

lemma batch_body_only_draws:
  "traces (quiet (''noise_scheduler.add_noise'' # ''accelerator.accumulate'' # step_calls))
     (batch_body w sb)"
  by (rule batch_body_quiet_for) (simp add: step_calls_def)

text \<open>
  Claim C1 is what the code attempts and misses. In every world, the body of the loop
  over the batches only reads the batch and draws the noise and the timesteps: it never
  calls \<^verbatim>\<open>add_noise\<close>, \<^verbatim>\<open>accelerator.accumulate\<close>, the model, the loss, the backward pass, the
  gradient clipping, the optimizer, the learning-rate schedule, the progress bar or the
  logger. These statements follow the loop, one indentation level too far to the left.
\<close>

theorem batch_loop_lacks_training_step:
  "traces (quiet (''noise_scheduler.add_noise'' # ''accelerator.accumulate'' # step_calls))
     (batch_body w sb)"
  by (rule batch_body_only_draws)

lemma accumulate_stmt_not_persist: "traces (quiet persist_calls) (accumulate_stmt w)"
  unfolding accumulate_stmt_def accumulate_block_def
  apply (simp add: combinators split del: if_split)
  apply (intro traces_intros seq_closed_quiet quiet_lcall)
  apply (simp_all add: persist_calls_def)
  done

lemma batch_body_not_persist: "traces (quiet persist_calls) (batch_body w sb)"
  unfolding batch_body_def
  apply (simp add: combinators split del: if_split)
  apply (intro traces_intros seq_closed_quiet quiet_lcall)
  apply (simp_all add: persist_calls_def)
  done

lemma epoch_body_not_persist: "traces (quiet persist_calls) (epoch_body w config epoch)"
  unfolding epoch_body_def
  apply (simp add: combinators split del: if_split)
  apply (intro traces_intros seq_closed_quiet quiet_lcall batch_body_not_persist
      accumulate_stmt_not_persist)
  apply (simp_all add: persist_calls_def)
  done

text \<open>
  Claim C3 is what the code's own comment ("After each epoch you optionally sample some
  demo images with evaluate() and save the model") says and the code does not do. In
  every world, the body of the loop over the epochs makes no call that builds the
  pipeline, saves or uploads the model, or samples and saves images; the notebook calls
  \<^verbatim>\<open>evaluate\<close> nowhere; and \<^verbatim>\<open>config.save_image_epochs\<close> is never read.
\<close>

theorem epoch_loop_never_persists:
  "traces (quiet persist_calls) (epoch_body w config epoch)
   \<and> concat (map (calls_of ''evaluate'' False) notebook_statements) = []
   \<and> Read ''save_image_epochs'' \<notin> set uses_after_construction"
  by (simp add: epoch_body_not_persist evaluate_calls uses_after)

subsection \<open>Exceptions of the library propagate\<close>














subsection \<open>Paths handed to the library\<close>






lemma traces_if': "(c \<Longrightarrow> traces R a) \<Longrightarrow> (\<not> c \<Longrightarrow> traces R b) \<Longrightarrow> traces R (if c then a else b)"
  by simp












subsection \<open>Independence from the history\<close>






























subsection \<open>The gradient-update block never runs the model\<close>

lemma accumulate_block_raises:
  assumes "globals w ''noisy_images'' = None"
  shows "accumulate_block w = pbind (lread ''model'') (\<lambda>_. raise (NameError ''noisy_images''))"
  using assms by (simp add: accumulate_block_def combinators gread_def)

lemma batch_body_quiet: "traces (quiet step_calls) (batch_body w sb)"
  unfolding batch_body_def
  apply (simp add: combinators split del: if_split)
  apply (intro traces_intros seq_closed_quiet quiet_lcall)
  apply (simp_all add: step_calls_def)
  done

lemma accumulate_stmt_quiet:
  assumes "globals w ''noisy_images'' = None"
  shows "traces (quiet step_calls) (accumulate_stmt w)"
  unfolding accumulate_stmt_def
  apply (simp add: combinators accumulate_block_raises [OF assms])
  apply (intro traces_intros seq_closed_quiet quiet_lcall)
  apply (simp_all add: step_calls_def)
  done

lemma accumulate_stmt_fails:
  assumes "globals w ''noisy_images'' = None"
  shows "fails (accumulate_stmt w)"
  unfolding accumulate_stmt_def
  apply (simp add: combinators accumulate_block_raises [OF assms])
  apply (intro fails_pbind2 fails_raise)
  done

lemma epoch_body_quiet:
  assumes "globals w ''noisy_images'' = None"
  shows "traces (quiet step_calls) (epoch_body w config epoch)"
  unfolding epoch_body_def
  apply (simp add: combinators split del: if_split)
  apply (intro traces_pbind_fails [of _ "accumulate_stmt w"] traces_intros seq_closed_quiet quiet_lcall
      batch_body_quiet accumulate_stmt_quiet accumulate_stmt_fails assms)
  apply (simp_all add: step_calls_def)
  done

lemma epoch_body_fails:
  assumes "globals w ''noisy_images'' = None"
  shows "fails (epoch_body w config epoch)"
  unfolding epoch_body_def
  apply (simp add: combinators split del: if_split)
  apply (intro fails_pbind1 [of "accumulate_stmt w"] fails_pbind2 accumulate_stmt_fails assms)
  done

lemma save_block_quiet: "traces (quiet step_calls) (save_block w config)"
  unfolding save_block_def
  apply (simp add: combinators split del: if_split)
  apply (intro traces_intros seq_closed_quiet quiet_lcall)
  apply (simp_all add: step_calls_def)
  done

lemma train_loop_quiet:
  assumes "globals w ''noisy_images'' = None"
  shows "traces (quiet step_calls) (train_loop w config model ns opt dl lrs)"
  unfolding train_loop_def
  apply (simp add: combinators split del: if_split)
  apply (intro traces_intros traces_unpack seq_closed_quiet quiet_lcall epoch_body_quiet save_block_quiet assms)
  apply (simp_all add: step_calls_def)
  done

lemma epochs_fail:
  assumes "globals w ''noisy_images'' = None" and "1 \<le> n"
  shows "fails (for_in [0 .. n - 1] (epoch_body w config))"
proof -
  from assms(2) have "[0 .. n - 1] = 0 # [1 .. n - 1]"
    by (simp add: upto_rec1)
  then show ?thesis
    by (simp add: pthen_def fails_pbind1 epoch_body_fails [OF assms(1)])
qed

lemma train_loop_fails:
  assumes "globals w ''noisy_images'' = None" and "1 \<le> num_epochs config"
  shows "fails (train_loop w config model ns opt dl lrs)"
  unfolding train_loop_def
  apply (simp add: combinators split del: if_split)
  apply (intro fails_pbind1 [of "for_in _ _"] fails_pbind2 epochs_fail assms)
  done

text \<open>
  Claim C6. \<^verbatim>\<open>train_loop\<close> binds the scheduler's output to \<^verbatim>\<open>noise_images\<close> and reads
  \<^verbatim>\<open>noisy_images\<close>, a name it never assigns and that the notebook never binds: each of the
  two names occurs once in the whole source. With \<^verbatim>\<open>noisy_images\<close> unbound in the global
  namespace: (1) the \<^verbatim>\<open>with accelerator.accumulate(model)\<close> statement,
  from any state, ends in an exception, and whenever the context is entered (the call of
  \<^verbatim>\<open>accumulate\<close> returns) that exception is \<open>NameError noisy_images\<close>, raised with no
  further library call, so before the model is called; (2) no run of \<^verbatim>\<open>train_loop\<close> ever
  calls the model, the loss, the backward pass, the optimizer or the logger; (3) with at
  least one epoch, \<^verbatim>\<open>train_loop\<close> never returns normally.
\<close>

theorem accumulate_block_NameError:
  assumes "globals w ''noisy_images'' = None"
  shows "accumulate_stmt w s =
           (case locals s ''accelerator'' of
              None \<Rightarrow> (Inl (UnboundLocalError ''accelerator''), s)
            | Some a \<Rightarrow>
               (case locals s ''model'' of
                  None \<Rightarrow> (Inl (UnboundLocalError ''model''), s)
                | Some m \<Rightarrow>
                   (Inl (case lib w (trace s) (''accelerator.accumulate'', [a, m]) of
                           Inl e \<Rightarrow> e | Inr _ \<Rightarrow> NameError ''noisy_images''),
                    s\<lparr>trace := trace s @ [(''accelerator.accumulate'', [a, m])]\<rparr>)))
       \<and> traces (quiet step_calls) (train_loop w config model ns opt dl lrs)
       \<and> (1 \<le> num_epochs config \<longrightarrow> fails (train_loop w config model ns opt dl lrs))
       \<and> occurrences ''noisy_images'' notebook_statements = 1
       \<and> occurrences ''noise_images'' notebook_statements = 1"
proof (intro conjI impI)
  show "accumulate_stmt w s = (case locals s ''accelerator'' of
              None \<Rightarrow> (Inl (UnboundLocalError ''accelerator''), s)
            | Some a \<Rightarrow>
               (case locals s ''model'' of
                  None \<Rightarrow> (Inl (UnboundLocalError ''model''), s)
                | Some m \<Rightarrow>
                   (Inl (case lib w (trace s) (''accelerator.accumulate'', [a, m]) of
                           Inl e \<Rightarrow> e | Inr _ \<Rightarrow> NameError ''noisy_images''),
                    s\<lparr>trace := trace s @ [(''accelerator.accumulate'', [a, m])]\<rparr>)))"
    unfolding accumulate_stmt_def
    by (simp add: combinators accumulate_block_raises [OF assms])
      (simp add: pbind_def lread_def lcall_def raise_def ret_def split: option.splits sum.splits)
qed (simp_all add: train_loop_quiet train_loop_fails assms noisy_images_once)

theorem accumulate_block_NameError_witness:
  "globals example_world ''noisy_images'' = None
   \<and> accumulate_stmt example_world
        \<lparr>locals = [''accelerator'' \<mapsto> VObj 6, ''model'' \<mapsto> VObj 1], trace = []\<rparr>
      = (Inl (NameError ''noisy_images''),
         \<lparr>locals = [''accelerator'' \<mapsto> VObj 6, ''model'' \<mapsto> VObj 1],
          trace = [(''accelerator.accumulate'', [VObj 6, VObj 1])]\<rparr>)
   \<and> traces (quiet step_calls)
        (train_loop example_world default_config (VObj 1) (VObj 2) (VObj 3) (VObj 4) (VObj 5))
   \<and> fails (train_loop example_world default_config (VObj 1) (VObj 2) (VObj 3) (VObj 4) (VObj 5))"
proof -
  have g: "globals example_world ''noisy_images'' = None"
    by (simp add: example_world_def notebook_globals_def notebook_global_names_def)
  have n: "1 \<le> num_epochs default_config"
    by (simp add: default_config_def)
  have l: "lib example_world [] (''accelerator.accumulate'', [VObj 6, VObj 1]) = Inr (VObj 1)"
    by (simp add: example_world_def example_lib_def)
  from accumulate_block_NameError
    [OF g, of "\<lparr>locals = [''accelerator'' \<mapsto> VObj 6, ''model'' \<mapsto> VObj 1], trace = []\<rparr>"
      default_config "VObj 1" "VObj 2" "VObj 3" "VObj 4" "VObj 5"] g n l
  show ?thesis
    by simp
qed

end
